theory Spec2Isabelle
  imports Complex_Main "HOL-Library.Sublist"
begin

section \<open>Python values\<close>

text \<open>
  The webhook is dynamically typed Python over an ontology loaded by owlready2. Values
  are modelled by \<open>pyval\<close>: \<open>None\<close>, \<open>str\<close>, \<open>int\<close>, \<open>list\<close>, \<open>dict\<close> with string keys (an
  association list in insertion order) and ontology individuals; the first five are
  what \<open>request.get_json()\<close> returns for a JSON body of null, strings, integers, arrays
  and objects.
  An individual is its table of relations; reading a relation either yields a value or
  raises (the entry is \<open>Inl e\<close>), and a name that is not in the table raises
  \<open>AttributeError\<close>. Built-in methods of Python values are not relation names and are
  not part of \<open>getattr\<close>; floating-point values occur only in
  \<open>query_highest_assessment_tool\<close>, where the conversion is a parameter.
  A \<open>char\<close> is one code point in the range U+0000 .. U+00FF.
\<close>

datatype exn = AttributeError | IndexError | KeyError | TypeError | ValueError | OtherError

datatype pyval =
    PNone
  | PStr string
  | PInt int
  | PList "pyval list"
  | PDict "(string \<times> pyval) list"
  | PNode "(string \<times> (exn + pyval)) list"

type_synonym dict = "(string \<times> pyval) list"

text \<open>\<open>d.get(k, default)\<close> and \<open>d[k] = v\<close> on a dictionary kept in insertion order.\<close>

definition dict_get :: "dict \<Rightarrow> string \<Rightarrow> pyval \<Rightarrow> pyval" where
  "dict_get d k dflt = (case map_of d k of None \<Rightarrow> dflt | Some v \<Rightarrow> v)"

fun dict_set :: "dict \<Rightarrow> string \<Rightarrow> pyval \<Rightarrow> dict" where
  "dict_set [] k v = [(k, v)]"
| "dict_set ((k', v') # d) k v = (if k' = k then (k, v) # d else (k', v') # dict_set d k v)"

text \<open>Truthiness (\<open>bool(x)\<close>): individuals define neither \<open>__bool__\<close> nor \<open>__len__\<close>.\<close>

fun truthy :: "pyval \<Rightarrow> bool" where
  "truthy PNone = False"
| "truthy (PStr s) = (s \<noteq> [])"
| "truthy (PInt i) = (i \<noteq> 0)"
| "truthy (PList xs) = (xs \<noteq> [])"
| "truthy (PDict d) = (d \<noteq> [])"
| "truthy (PNode attrs) = True"

text \<open>\<open>getattr(obj, name)\<close> and \<open>hasattr(obj, name)\<close>; the latter catches
  \<open>AttributeError\<close> only, any other exception of the read propagates.\<close>

fun getattr_py :: "pyval \<Rightarrow> string \<Rightarrow> exn + pyval" where
  "getattr_py (PNode attrs) name =
     (case map_of attrs name of None \<Rightarrow> Inl AttributeError | Some r \<Rightarrow> r)"
| "getattr_py obj name = Inl AttributeError"

definition hasattr :: "pyval \<Rightarrow> string \<Rightarrow> exn + bool" where
  "hasattr obj name =
     (case getattr_py obj name of
        Inl e \<Rightarrow> (if e = AttributeError then Inr False else Inl e)
      | Inr v \<Rightarrow> Inr True)"

section \<open>Strings\<close>

text \<open>Character classes of Python 3 on U+0000 .. U+00FF: \<open>str.isspace\<close> (used by
  \<open>strip\<close> and by \<open>\s\<close>), decimal digits (\<open>\d\<close>), the letters and digits of \<open>str.isalnum\<close>,
  and \<open>\w\<close>, which is \<open>str.isalnum\<close> or the underscore.\<close>

definition is_space :: "char \<Rightarrow> bool" where
  "is_space c = (let n = (of_char c :: nat) in
     (9 \<le> n \<and> n \<le> 13) \<or> (28 \<le> n \<and> n \<le> 32) \<or> n = 133 \<or> n = 160)"

definition is_decimal :: "char \<Rightarrow> bool" where
  "is_decimal c = (let n = (of_char c :: nat) in 48 \<le> n \<and> n \<le> 57)"

definition is_alnum :: "char \<Rightarrow> bool" where
  "is_alnum c = (let n = (of_char c :: nat) in
     (48 \<le> n \<and> n \<le> 57) \<or> (65 \<le> n \<and> n \<le> 90) \<or> (97 \<le> n \<and> n \<le> 122)
     \<or> n = 170 \<or> n = 178 \<or> n = 179 \<or> n = 181 \<or> n = 185 \<or> n = 186
     \<or> (188 \<le> n \<and> n \<le> 190) \<or> (192 \<le> n \<and> n \<le> 214) \<or> (216 \<le> n \<and> n \<le> 246)
     \<or> 248 \<le> n)"

definition is_word :: "char \<Rightarrow> bool" where
  "is_word c = (is_alnum c \<or> c = CHR ''_'')"

definition lower_chr :: "char \<Rightarrow> char" where
  "lower_chr c = (let n = (of_char c :: nat) in
     if (65 \<le> n \<and> n \<le> 90) \<or> (192 \<le> n \<and> n \<le> 214) \<or> (216 \<le> n \<and> n \<le> 222)
     then char_of (n + 32) else c)"

definition py_lower :: "string \<Rightarrow> string" where
  "py_lower s = map lower_chr s"

definition py_strip :: "string \<Rightarrow> string" where
  "py_strip s = rev (dropWhile is_space (rev (dropWhile is_space s)))"

text \<open>\<open>s.split(sep)\<close> for a one-character separator: always at least one piece.\<close>

fun py_split :: "string \<Rightarrow> char \<Rightarrow> string list" where
  "py_split [] sep = [ [] ]"
| "py_split (c # cs) sep =
     (if c = sep then [] # py_split cs sep
      else (case py_split cs sep of p # ps \<Rightarrow> (c # p) # ps | [] \<Rightarrow> [ [c] ]))"

text \<open>\<open>sep.join(parts)\<close> on strings.\<close>

fun join :: "string \<Rightarrow> string list \<Rightarrow> string" where
  "join sep [] = []"
| "join sep [p] = p"
| "join sep (p # q # ps) = p @ sep @ join sep (q # ps)"

text \<open>\<open>s.replace(old, new)\<close>: non-overlapping occurrences, left to right; an empty
  \<open>old\<close> matches before every character and at the end.\<close>

function replace_ne :: "string \<Rightarrow> string \<Rightarrow> string \<Rightarrow> string" where
  "replace_ne old new [] = []"
| "replace_ne old new (c # cs) =
     (if old \<noteq> [] \<and> prefix old (c # cs)
      then new @ replace_ne old new (drop (length old) (c # cs))
      else c # replace_ne old new cs)"
  by pat_completeness auto
termination
  by (relation "measure (\<lambda>(old, new, s). length s)") auto

definition py_replace :: "string \<Rightarrow> string \<Rightarrow> string \<Rightarrow> string" where
  "py_replace s old new =
     (if old = [] then new @ concat (map (\<lambda>c. c # new) s) else replace_ne old new s)"

text \<open>Decimal rendering of integers, as \<open>str\<close> and \<open>format\<close> produce it.\<close>

fun show_nat :: "nat \<Rightarrow> string" where
  "show_nat n =
     (if n < 10 then [char_of (48 + n)]
      else show_nat (n div 10) @ [char_of (48 + n mod 10)])"

definition show_int :: "int \<Rightarrow> string" where
  "show_int i = (if i < 0 then CHR ''-'' # show_nat (nat (- i)) else show_nat (nat i))"

declare show_nat.simps [simp del]

subsection \<open>The three regular expressions of the source\<close>

text \<open>\<open>re.sub(r'\W+', '_', s)\<close>: every maximal run of non-word characters becomes one
  underscore.\<close>

function sub_nonword :: "string \<Rightarrow> string" where
  "sub_nonword [] = []"
| "sub_nonword (c # cs) =
     (if is_word c then c # sub_nonword cs
      else CHR ''_'' # sub_nonword (dropWhile (\<lambda>x. \<not> is_word x) cs))"
  by pat_completeness auto
termination
  by (relation "measure length") (auto simp: length_dropWhile_le less_Suc_eq_le)

text \<open>\<open>re.match(r"^[\w\s-]+$", s)\<close>: since the newline is in the class, the pattern
  matches exactly the non-empty strings all of whose characters are in the class.\<close>

definition in_valid_class :: "char \<Rightarrow> bool" where
  "in_valid_class c = (is_word c \<or> is_space c \<or> c = CHR ''-'')"

definition match_valid :: "string \<Rightarrow> bool" where
  "match_valid s = (s \<noteq> [] \<and> list_all in_valid_class s)"

text \<open>\<open>re.search(r'(\d+\.?\d*)', s)\<close>: group 1 of the leftmost match, which starts at
  the first digit and takes digits, one optional point and further digits greedily.\<close>

definition search_number :: "string \<Rightarrow> string option" where
  "search_number s =
     (let r = dropWhile (\<lambda>c. \<not> is_decimal c) s in
      if r = [] then None
      else
        let ds = takeWhile is_decimal r; r' = dropWhile is_decimal r in
        Some (case r' of
                [] \<Rightarrow> ds
              | c # r'' \<Rightarrow> if c = CHR ''.'' then ds @ [c] @ takeWhile is_decimal r'' else ds))"

section \<open>Configuration and the external collaborators\<close>

text \<open>
  The ontology and the library functions the code calls are the fields of \<open>env\<close>:
  \<open>onto.search(iri=pattern)\<close>, \<open>onto.search(Instructors=name)\<close>, \<open>str\<close> of a list or an
  individual, \<open>int\<close> of a string, \<open>float\<close> of a matched numeral (into any linear
  order) and its rendering, \<open>json.dumps\<close>, and the bodies of the bespoke handlers that are
  not embedded below (looked up by their Python name).
\<close>

record 'f env =
  search_iri :: "string \<Rightarrow> pyval list"
  search_Instructors :: "string \<Rightarrow> pyval list"
  str_ext :: "pyval \<Rightarrow> string"
  int_str :: "string \<Rightarrow> exn + int"
  py_float :: "string \<Rightarrow> 'f"
  float_str :: "'f \<Rightarrow> string"
  json_dumps :: "dict \<Rightarrow> string"
  other_handler :: "string \<Rightarrow> dict \<Rightarrow> exn + string"

definition PAGE_SIZE :: nat where
  "PAGE_SIZE = 3"

definition MAX_INPUT_LENGTH :: nat where
  "MAX_INPUT_LENGTH = 50"

text \<open>\<open>str(x)\<close>, which is also what an f-string and \<open>str.format\<close> insert.\<close>

definition py_str :: "'f env \<Rightarrow> pyval \<Rightarrow> string" where
  "py_str env v =
     (case v of PNone \<Rightarrow> ''None'' | PStr s \<Rightarrow> s | PInt i \<Rightarrow> show_int i | _ \<Rightarrow> str_ext env v)"

text \<open>\<open>int(x)\<close>.\<close>

definition py_int :: "'f env \<Rightarrow> pyval \<Rightarrow> exn + int" where
  "py_int env v = (case v of PInt i \<Rightarrow> Inr i | PStr s \<Rightarrow> int_str env s | _ \<Rightarrow> Inl TypeError)"

text \<open>\<open>len(x)\<close>.\<close>

definition py_len :: "pyval \<Rightarrow> exn + nat" where
  "py_len v =
     (case v of
        PStr s \<Rightarrow> Inr (length s)
      | PList xs \<Rightarrow> Inr (length xs)
      | PDict d \<Rightarrow> Inr (length d)
      | _ \<Rightarrow> Inl TypeError)"

text \<open>The members of \<open>ERROR_TEMPLATES\<close> that are used, already applied to their fields.\<close>

definition not_found :: "string \<Rightarrow> string \<Rightarrow> string" where
  "not_found entity name =
     ''I couldn't find '' @ entity @ '' '' @ [CHR 0x27] @ name @ [CHR 0x27] @ ''.''"

definition no_data :: "string \<Rightarrow> string \<Rightarrow> string \<Rightarrow> string" where
  "no_data data_type entity name =
     ''No '' @ data_type @ '' available for '' @ entity @ '' '' @ [CHR 0x27] @ name
       @ [CHR 0x27] @ ''.''"

definition pagination :: "int \<Rightarrow> int \<Rightarrow> string" where
  "pagination current tot =
     [CHR 0x0A, CHR 0x0A] @ ''(Page '' @ show_int current @ ''/'' @ show_int tot
       @ '' - Say '' @ [CHR 0x27] @ ''next page'' @ [CHR 0x27] @ '' or '' @ [CHR 0x27]
       @ ''previous page'' @ [CHR 0x27] @ '')''"


section \<open>Helper functions\<close>

definition sanitize_id :: "string \<Rightarrow> string" where
  "sanitize_id name = sub_nonword (py_lower (py_strip name))"

text \<open>\<open>validate_input\<close>: \<open>len\<close> and \<open>re.match\<close> raise \<open>TypeError\<close> on values they do
  not accept.\<close>

definition validate_input :: "pyval \<Rightarrow> exn + bool" where
  "validate_input v =
     (if \<not> truthy v then Inr False
      else case py_len v of
        Inl e \<Rightarrow> Inl e
      | Inr n \<Rightarrow>
          if n > MAX_INPUT_LENGTH then Inr False
          else (case v of PStr s \<Rightarrow> Inr (match_valid s) | _ \<Rightarrow> Inl TypeError))"

text \<open>The body of the \<open>try\<close> block of \<open>get_nested_property\<close>: the loop over the path
  segments, then the two \<open>return\<close> statements after it.\<close>

fun walk_path :: "pyval \<Rightarrow> string list \<Rightarrow> exn + pyval" where
  "walk_path obj [] =
     (case obj of
        PList xs \<Rightarrow> (case xs of [] \<Rightarrow> Inr PNone | x # _ \<Rightarrow> Inr x)
      | _ \<Rightarrow> Inr (if obj = PNone \<or> obj = PStr ''NA'' then PNone else obj))"
| "walk_path obj (prop # props) =
     (if obj = PList [] then Inr PNone
      else
        let obj1 = (case obj of PList xs \<Rightarrow> hd xs | _ \<Rightarrow> obj) in
        case hasattr obj1 prop of
          Inl e \<Rightarrow> Inl e
        | Inr b \<Rightarrow>
            if \<not> b then Inr PNone
            else (case getattr_py obj1 prop of
                    Inl e \<Rightarrow> Inl e
                  | Inr v \<Rightarrow> walk_path v props))"

text \<open>\<open>get_nested_property\<close>: \<open>except Exception\<close> turns every exception of the body into
  \<open>None\<close>.\<close>

definition get_nested_property :: "pyval \<Rightarrow> string \<Rightarrow> exn + pyval" where
  "get_nested_property obj property_path =
     (case walk_path obj (py_split property_path (CHR ''.'')) of
        Inl e \<Rightarrow> Inr PNone
      | Inr v \<Rightarrow> Inr v)"

text \<open>\<open>paginate_items\<close>: the slices \<open>items[i:i+page_size]\<close> for \<open>i\<close> in
  \<open>range(0, len(items), page_size)\<close>; \<open>range\<close> refuses a zero step.\<close>

definition py_range_step :: "nat \<Rightarrow> nat \<Rightarrow> nat list" where
  "py_range_step n step = map (\<lambda>k. k * step) [0 ..< (n + step - 1) div step]"

definition paginate_items :: "'a list \<Rightarrow> nat \<Rightarrow> exn + 'a list list" where
  "paginate_items items page_size =
     (if page_size = 0 then Inl ValueError
      else Inr (map (\<lambda>i. take page_size (drop i items))
                  (py_range_step (length items) page_size)))"

section \<open>Cached data access\<close>

text \<open>A call of a resolver returns its result together with the ontology queries it
  issued, in order.\<close>

datatype query = SearchIri string | SearchInstructors string

type_synonym call = "(exn + pyval) \<times> query list"

text \<open>\<open>next(iter(xs), None)\<close>.\<close>

definition first_or_none :: "pyval list \<Rightarrow> pyval" where
  "first_or_none xs = (case xs of [] \<Rightarrow> PNone | x # _ \<Rightarrow> x)"

text \<open>The undecorated bodies of \<open>get_course\<close> and \<open>get_instructor\<close>.\<close>

definition get_course_body :: "'f env \<Rightarrow> pyval \<Rightarrow> call" where
  "get_course_body env course_name =
     (case validate_input course_name of
        Inl e \<Rightarrow> (Inl e, [])
      | Inr ok \<Rightarrow>
          if \<not> ok then (Inr PNone, [])
          else (case course_name of
                  PStr s \<Rightarrow>
                    (let pat = ''*#'' @ sanitize_id s
                     in (Inr (first_or_none (search_iri env pat)), [SearchIri pat]))
                | _ \<Rightarrow> (Inl AttributeError, [])))"

definition get_instructor_body :: "'f env \<Rightarrow> pyval \<Rightarrow> call" where
  "get_instructor_body env instructor_name =
     (case validate_input instructor_name of
        Inl e \<Rightarrow> (Inl e, [])
      | Inr ok \<Rightarrow>
          if \<not> ok then (Inr PNone, [])
          else (case instructor_name of
                  PStr s \<Rightarrow>
                    (Inr (first_or_none (search_Instructors env (py_strip s))),
                     [SearchInstructors (py_strip s)])
                | _ \<Rightarrow> (Inl AttributeError, [])))"

text \<open>
  \<open>functools.lru_cache(maxsize)\<close> around a one-argument function. The cache is the list
  of (argument, result) pairs, most recently used first. A list or dict argument is not
  hashable. A hit returns the stored result and issues no query; a miss runs the body,
  stores a returned result (an exception is not stored) and drops the least recently
  used entry beyond \<open>maxsize\<close>.
\<close>

type_synonym cache = "(pyval \<times> pyval) list"

fun hashable :: "pyval \<Rightarrow> bool" where
  "hashable (PList xs) = False"
| "hashable (PDict d) = False"
| "hashable v = True"

definition lru_cache :: "nat \<Rightarrow> (pyval \<Rightarrow> call) \<Rightarrow> cache \<Rightarrow> pyval \<Rightarrow> call \<times> cache" where
  "lru_cache maxsize f c key =
     (if \<not> hashable key then ((Inl TypeError, []), c)
      else case map_of c key of
        Some v \<Rightarrow> ((Inr v, []), (key, v) # filter (\<lambda>e. fst e \<noteq> key) c)
      | None \<Rightarrow>
          (case f key of
             (Inl e, qs) \<Rightarrow> ((Inl e, qs), c)
           | (Inr v, qs) \<Rightarrow> ((Inr v, qs), take maxsize ((key, v) # c))))"

definition get_course_cached :: "'f env \<Rightarrow> cache \<Rightarrow> pyval \<Rightarrow> call \<times> cache" where
  "get_course_cached env = lru_cache 100 (get_course_body env)"

definition get_instructor_cached :: "'f env \<Rightarrow> cache \<Rightarrow> pyval \<Rightarrow> call \<times> cache" where
  "get_instructor_cached env = lru_cache 50 (get_instructor_body env)"

text \<open>A sequence of calls of \<open>get_course\<close> that share the cache: the results, in order.\<close>

fun get_course_calls :: "'f env \<Rightarrow> cache \<Rightarrow> pyval list \<Rightarrow> (exn + pyval) list" where
  "get_course_calls env c [] = []"
| "get_course_calls env c (k # ks) =
     (case get_course_cached env c k of
        ((r, qs), c') \<Rightarrow> r # get_course_calls env c' ks)"

text \<open>Every entry of the cache is a result that the body returns for its key.\<close>

definition cache_ok :: "(pyval \<Rightarrow> call) \<Rightarrow> cache \<Rightarrow> bool" where
  "cache_ok f c = list_all (\<lambda>(k, v). fst (f k) = Inr v) c"

text \<open>
  The value of a call of the decorated function, whatever the cache holds: the ontology
  is fixed, so the cache is transparent (lemma \<open>lru_cache_result\<close> below), and the
  handlers are written over these two functions.
\<close>

definition get_course :: "'f env \<Rightarrow> pyval \<Rightarrow> exn + pyval" where
  "get_course env course_name =
     (if hashable course_name then fst (get_course_body env course_name) else Inl TypeError)"

definition get_instructor :: "'f env \<Rightarrow> pyval \<Rightarrow> exn + pyval" where
  "get_instructor env instructor_name =
     (if hashable instructor_name then fst (get_instructor_body env instructor_name)
      else Inl TypeError)"


section \<open>Query handlers\<close>

text \<open>Iteration (\<open>for x in v\<close>), \<open>v.lower()\<close> and \<open>sep.join(items)\<close> on dynamically typed
  values, and a loop or comprehension whose body may raise and may skip an element.\<close>

definition py_iter :: "pyval \<Rightarrow> exn + pyval list" where
  "py_iter v =
     (case v of
        PList xs \<Rightarrow> Inr xs
      | PStr s \<Rightarrow> Inr (map (\<lambda>c. PStr [c]) s)
      | PDict d \<Rightarrow> Inr (map (\<lambda>e. PStr (fst e)) d)
      | _ \<Rightarrow> Inl TypeError)"

definition str_lower :: "pyval \<Rightarrow> exn + string" where
  "str_lower v = (case v of PStr s \<Rightarrow> Inr (py_lower s) | _ \<Rightarrow> Inl AttributeError)"

fun str_opt :: "pyval \<Rightarrow> string option" where
  "str_opt (PStr s) = Some s"
| "str_opt v = None"

definition py_join :: "string \<Rightarrow> pyval list \<Rightarrow> exn + string" where
  "py_join sep xs =
     (case those (map str_opt xs) of None \<Rightarrow> Inl TypeError | Some ss \<Rightarrow> Inr (join sep ss))"

fun collect :: "('a \<Rightarrow> exn + 'b option) \<Rightarrow> 'a list \<Rightarrow> exn + 'b list" where
  "collect f [] = Inr []"
| "collect f (x # xs) =
     (case f x of
        Inl e \<Rightarrow> Inl e
      | Inr r \<Rightarrow>
          (case collect f xs of
             Inl e \<Rightarrow> Inl e
           | Inr rs \<Rightarrow> Inr (case r of None \<Rightarrow> rs | Some y \<Rightarrow> y # rs)))"

subsection \<open>Generic handlers\<close>

definition handle_standard_query ::
  "'f env \<Rightarrow> dict \<Rightarrow> string \<Rightarrow> string \<Rightarrow> string \<Rightarrow> exn + string" where
  "handle_standard_query env params property_path data_type entity_name =
     (case get_course env (dict_get params ''courseName'' (PStr [])) of
        Inl e \<Rightarrow> Inl e
      | Inr course \<Rightarrow>
          if \<not> truthy course
          then Inr (not_found entity_name (py_str env (dict_get params ''courseName'' PNone)))
          else (case get_nested_property course property_path of
                  Inl e \<Rightarrow> Inl e
                | Inr v \<Rightarrow>
                    if \<not> truthy v
                    then Inr (no_data data_type entity_name
                                (py_str env (dict_get params ''courseName'' PNone)))
                    else Inr (py_str env v)))"

text \<open>\<open>handle_list_query\<close>, lines 417 to 427: the items of the course.\<close>

definition apply_format :: "(pyval \<Rightarrow> exn + pyval) option \<Rightarrow> pyval \<Rightarrow> exn + pyval" where
  "apply_format format_func v = (case format_func of None \<Rightarrow> Inr v | Some f \<Rightarrow> f v)"

definition list_query_items ::
  "pyval \<Rightarrow> string \<Rightarrow> (pyval \<Rightarrow> exn + pyval) option \<Rightarrow> exn + pyval list" where
  "list_query_items course property_path format_func =
     (let parts = py_split property_path (CHR ''.''); first_prop = hd parts; rest = tl parts in
      case (case getattr_py course first_prop of
              Inl e \<Rightarrow> (if e = AttributeError then Inr (PList []) else Inl e)
            | Inr r \<Rightarrow> Inr r) of
        Inl e \<Rightarrow> Inl e
      | Inr results \<Rightarrow>
          if rest \<noteq> [] then
            (case py_iter results of
               Inl e \<Rightarrow> Inl e
             | Inr rs \<Rightarrow>
                 collect (\<lambda>item.
                    case get_nested_property item (join ''.'' rest) of
                      Inl e \<Rightarrow> Inl e
                    | Inr v \<Rightarrow>
                        if truthy v
                        then (case apply_format format_func v of
                                Inl e \<Rightarrow> Inl e | Inr y \<Rightarrow> Inr (Some y))
                        else Inr None) rs)
          else
            (case py_iter results of
               Inl e \<Rightarrow> Inl e
             | Inr rs \<Rightarrow>
                 collect (\<lambda>item.
                    if truthy item
                    then (case apply_format format_func item of
                            Inl e \<Rightarrow> Inl e | Inr y \<Rightarrow> Inr (Some y))
                    else Inr None) rs))"

text \<open>\<open>handle_list_query\<close>, lines 428 to 436: the page of the items that is shown.\<close>

definition list_query_page :: "'f env \<Rightarrow> dict \<Rightarrow> pyval list \<Rightarrow> string \<Rightarrow> exn + string" where
  "list_query_page env params items items_name =
     (case py_int env (dict_get params ''page'' (PInt 0)) of
        Inl e \<Rightarrow> Inl e
      | Inr page \<Rightarrow>
          (case paginate_items items PAGE_SIZE of
             Inl e \<Rightarrow> Inl e
           | Inr pages \<Rightarrow>
               if pages = []
               then Inr (no_data items_name ''course''
                           (py_str env (dict_get params ''courseName'' PNone)))
               else
                 let page' = max 0 (min page (int (length pages) - 1)) in
                 case py_join [CHR 0x0A] (pages ! nat page') of
                   Inl e \<Rightarrow> Inl e
                 | Inr response \<Rightarrow>
                     Inr (if length pages > 1
                          then response @ pagination (page' + 1) (int (length pages))
                          else response)))"

definition handle_list_query ::
  "'f env \<Rightarrow> dict \<Rightarrow> string \<Rightarrow> string \<Rightarrow> (pyval \<Rightarrow> exn + pyval) option \<Rightarrow> exn + string" where
  "handle_list_query env params property_path items_name format_func =
     (case get_course env (dict_get params ''courseName'' (PStr [])) of
        Inl e \<Rightarrow> Inl e
      | Inr course \<Rightarrow>
          if \<not> truthy course
          then Inr (not_found ''course'' (py_str env (dict_get params ''courseName'' PNone)))
          else (case list_query_items course property_path format_func of
                  Inl e \<Rightarrow> Inl e
                | Inr items \<Rightarrow> list_query_page env params items items_name))"

subsection \<open>Bespoke handlers\<close>

text \<open>\<open>query_assessment_percentage\<close>: the loop over \<open>course.hasAssessment\<close>, then the
  handler.\<close>

fun percentage_loop :: "'f env \<Rightarrow> dict \<Rightarrow> pyval \<Rightarrow> pyval list \<Rightarrow> exn + string" where
  "percentage_loop env params tool_name [] =
     Inr (not_found ''assessment tool'' (py_str env tool_name))"
| "percentage_loop env params tool_name (assessment # rest) =
     (case getattr_py assessment ''AssessmentTool'' of
        Inl e \<Rightarrow> Inl e
      | Inr tool \<Rightarrow>
          if \<not> truthy tool then percentage_loop env params tool_name rest
          else (case str_lower tool of
                  Inl e \<Rightarrow> Inl e
                | Inr l \<Rightarrow>
                    (case str_lower tool_name of
                       Inl e \<Rightarrow> Inl e
                     | Inr r \<Rightarrow>
                         if l \<noteq> r then percentage_loop env params tool_name rest
                         else (case getattr_py assessment ''Percentage'' of
                                 Inl e \<Rightarrow> Inl e
                               | Inr p \<Rightarrow>
                                   if truthy p then Inr (py_str env p @ ''%'')
                                   else Inr (no_data ''assessment percentage'' ''course''
                                               (py_str env
                                                  (dict_get params ''courseName'' PNone)))))))"

definition query_assessment_percentage :: "'f env \<Rightarrow> dict \<Rightarrow> exn + string" where
  "query_assessment_percentage env params =
     (case get_course env (dict_get params ''courseName'' (PStr [])) of
        Inl e \<Rightarrow> Inl e
      | Inr course \<Rightarrow>
          let tool_name = dict_get params ''assessmentTool'' (PStr []);
              missing = Inr (not_found ''course''
                               (py_str env (dict_get params ''courseName'' PNone)))
          in
          if \<not> truthy course then missing
          else (case getattr_py course ''hasAssessment'' of
                  Inl e \<Rightarrow> Inl e
                | Inr assessments \<Rightarrow>
                    if \<not> truthy assessments then missing
                    else (case py_iter assessments of
                            Inl e \<Rightarrow> Inl e
                          | Inr xs \<Rightarrow> percentage_loop env params tool_name xs)))"

text \<open>\<open>query_session_info\<close>: the generator handed to \<open>next\<close>, then the handler.\<close>

fun find_session :: "'f env \<Rightarrow> string \<Rightarrow> pyval list \<Rightarrow> exn + pyval" where
  "find_session env session_num [] = Inr PNone"
| "find_session env session_num (s # rest) =
     (case getattr_py s ''Session'' of
        Inl e \<Rightarrow> Inl e
      | Inr n \<Rightarrow>
          if py_str env n = session_num then Inr s else find_session env session_num rest)"

definition query_session_info :: "'f env \<Rightarrow> dict \<Rightarrow> exn + string" where
  "query_session_info env params =
     (case get_course env (dict_get params ''courseName'' (PStr [])) of
        Inl e \<Rightarrow> Inl e
      | Inr course \<Rightarrow>
          let session_num = py_str env (dict_get params ''sessionNumber'' (PStr [])) in
          if \<not> truthy course then Inr ''Session information not found.''
          else (case getattr_py course ''hasSessionPlan'' of
                  Inl e \<Rightarrow> Inl e
                | Inr plans \<Rightarrow>
          (case py_iter plans of
             Inl e \<Rightarrow> Inl e
           | Inr xs \<Rightarrow>
          (case find_session env session_num xs of
             Inl e \<Rightarrow> Inl e
           | Inr session \<Rightarrow>
               if \<not> truthy session then Inr ''Session information not found.''
               else
          (case getattr_py session ''Module'' of
             Inl e \<Rightarrow> Inl e
           | Inr m \<Rightarrow>
          (case getattr_py session ''Topic'' of
             Inl e \<Rightarrow> Inl e
           | Inr t \<Rightarrow>
          (case getattr_py session ''ReadingMaterial'' of
             Inl e \<Rightarrow> Inl e
           | Inr r \<Rightarrow>
               let details = ''Module: '' @ py_str env m @ '', Topic: '' @ py_str env t
                               @ '', Materials: '' @ py_str env r
               in Inr (py_replace (py_replace details ''NA, '' []) ''NA'' []))))))))"

text \<open>\<open>query_highest_assessment_tool\<close>: the loop with its running maximum \<open>highest\<close>, then
  the handler.\<close>

fun highest_loop ::
  "('f::linorder) env \<Rightarrow> pyval list \<Rightarrow> ('f \<times> pyval) option \<Rightarrow> exn + ('f \<times> pyval) option" where
  "highest_loop env [] highest = Inr highest"
| "highest_loop env (a # rest) highest =
     (case getattr_py a ''Percentage'' of
        Inl e \<Rightarrow> Inl e
      | Inr p \<Rightarrow>
          (case (if truthy p then p else PStr []) of
             PStr percentage_str \<Rightarrow>
               (case search_number percentage_str of
                  None \<Rightarrow> highest_loop env rest highest
                | Some m \<Rightarrow>
                    let perc = py_float env m in
                    if (case highest of None \<Rightarrow> True | Some h \<Rightarrow> perc > fst h)
                    then (case getattr_py a ''AssessmentTool'' of
                            Inl e \<Rightarrow> Inl e
                          | Inr tool \<Rightarrow> highest_loop env rest (Some (perc, tool)))
                    else highest_loop env rest highest)
           | _ \<Rightarrow> Inl TypeError))"

definition query_highest_assessment_tool :: "('f::linorder) env \<Rightarrow> dict \<Rightarrow> exn + string" where
  "query_highest_assessment_tool env params =
     (case get_course env (dict_get params ''courseName'' (PStr [])) of
        Inl e \<Rightarrow> Inl e
      | Inr course \<Rightarrow>
          let nothing = Inr (no_data ''assessment tool'' ''course''
                               (py_str env (dict_get params ''courseName'' PNone)))
          in
          if \<not> truthy course then nothing
          else (case getattr_py course ''hasAssessment'' of
                  Inl e \<Rightarrow> Inl e
                | Inr assessments \<Rightarrow>
                    if \<not> truthy assessments then nothing
                    else (case py_iter assessments of
                            Inl e \<Rightarrow> Inl e
                          | Inr xs \<Rightarrow>
                              (case highest_loop env xs None of
                                 Inl e \<Rightarrow> Inl e
                               | Inr None \<Rightarrow> nothing
                               | Inr (Some h) \<Rightarrow>
                                   Inr (''Highest weighted assessment tool: ''
                                          @ py_str env (snd h) @ '' ('' @ float_str env (fst h)
                                          @ ''%).'')))))"


definition query_year_batch :: "'f env \<Rightarrow> dict \<Rightarrow> exn + string" where
  "query_year_batch env params =
     handle_standard_query env params ''hasCourseMetadata.YearBatch'' ''year/batch'' ''course''"

definition query_sections :: "'f env \<Rightarrow> dict \<Rightarrow> exn + string" where
  "query_sections env params =
     handle_standard_query env params ''hasCourseMetadata.Sections'' ''sections'' ''course''"

section \<open>The dispatch table and the webhook\<close>

text \<open>The item formatter of \<open>GetCourseTopics\<close>.\<close>

definition format_topic :: "'f env \<Rightarrow> pyval \<Rightarrow> exn + pyval" where
  "format_topic env s =
     (case getattr_py s ''Session'' of
        Inl e \<Rightarrow> Inl e
      | Inr n \<Rightarrow>
     (case getattr_py s ''Module'' of
        Inl e \<Rightarrow> Inl e
      | Inr m \<Rightarrow>
     (case getattr_py s ''Topic'' of
        Inl e \<Rightarrow> Inl e
      | Inr t \<Rightarrow>
          Inr (PStr (''Session '' @ py_str env n @ '': '' @ py_str env m @ '' - ''
                       @ py_str env t)))))"

text \<open>\<open>INTENT_HANDLERS\<close>, in the order of the source. The handlers that are not embedded
  above are the \<open>other_handler\<close> of the environment.\<close>

definition INTENT_HANDLERS ::
  "('f::linorder) env \<Rightarrow> (string \<times> (dict \<Rightarrow> exn + string)) list" where
  "INTENT_HANDLERS env =
    [(''GetCourseCredits'', \<lambda>p. handle_standard_query env p
        ''hasCourseMetadata.CourseCredit'' ''credit information'' ''course''),
     (''GetCourseType'', \<lambda>p. handle_standard_query env p
        ''hasCourseMetadata.CourseType'' ''course type'' ''course''),
     (''GetPrerequisites'', \<lambda>p. handle_standard_query env p
        ''hasCourseMetadata.Prerequisites'' ''prerequisites'' ''course''),
     (''GetSessionDuration'', \<lambda>p. handle_standard_query env p
        ''hasCourseMetadata.SessionDuration'' ''session duration'' ''course''),
     (''GetTotalSessions'', \<lambda>p. handle_standard_query env p
        ''hasCourseMetadata.TotalSessions'' ''total sessions'' ''course''),
     (''GetCourseOverview'', \<lambda>p. handle_standard_query env p
        ''hasBasicInfo.Introduction'' ''course overview'' ''course''),
     (''GetLearningOutcomes'', \<lambda>p. handle_standard_query env p
        ''hasBasicInfo.LearningOutcomes'' ''learning outcomes'' ''course''),
     (''GetPedagogy'', \<lambda>p. handle_standard_query env p
        ''hasBasicInfo.PedagogyUsed'' ''pedagogy information'' ''course''),
     (''GetInstructorForCourse'', \<lambda>p. handle_list_query env p
        ''hasInstructorDetails'' ''instructors''
        (Some (\<lambda>i. get_nested_property i ''Instructors''))),
     (''GetInstructorContact'', \<lambda>p. handle_standard_query env p
        ''hasInstructorDetails.ContactDetails'' ''contact details'' ''course''),
     (''GetContactInstructor'', other_handler env ''query_contact_instructor''),
     (''GetCoursesByInstructor'', other_handler env ''query_courses_by_instructor''),
     (''GetCourseTopics'', \<lambda>p. handle_list_query env p
        ''hasSessionPlan'' ''topics'' (Some (format_topic env))),
     (''GetSessionInfo'', \<lambda>p. handle_standard_query env p
        (''hasSessionPlan.'' @ py_str env (dict_get p ''sessionNumber'' PNone))
        ''session info'' ''course''),
     (''GetFullSessionPlan'', other_handler env ''query_full_session_plan''),
     (''GetAssessmentTools'', \<lambda>p. handle_list_query env p
        ''hasAssessment'' ''assessment tools'' (Some (\<lambda>a. getattr_py a ''AssessmentTool''))),
     (''GetAssessmentPercentage'', query_assessment_percentage env),
     (''GetAssessmentDetails'', other_handler env ''query_assessment_details_full''),
     (''GetHighestAssessmentTool'', query_highest_assessment_tool env),
     (''GetYearBatch'', query_year_batch env),
     (''GetSections'', query_sections env),
     (''GetProgramForCourse'', other_handler env ''query_program_for_course''),
     (''GetTermForCourseProgram'', other_handler env ''query_term_for_course_program''),
     (''GetCoursesInProgramTerm'', other_handler env ''query_courses_in_program_term''),
     (''GetInstructorsInProgramTerm'', other_handler env ''query_instructors_in_program_term''),
     (''GetInstructorOffice'', other_handler env ''query_instructor_office''),
     (''GetCoursesByInstructorInProgram'',
        other_handler env ''query_courses_by_instructor_in_program''),
     (''GetConsultationContact'', other_handler env ''query_consultation_contact'')]"

text \<open>
  A request of the shape the platform sends: the intent's display name, the parameters
  (a mapping), and the contexts, each with its name and, when it has one, its
  \<open>parameters\<close> member (a mapping). \<open>webhook\<close> is the endpoint on such a request;
  \<open>webhook_json\<close> below is the endpoint on any decoded body, and \<open>request_body\<close> is the
  body of a request of this shape. The response has its text and, when the key is
  there, its output contexts.
\<close>

record in_context =
  ctx_name :: string
  ctx_parameters :: "dict option"

record request =
  req_intent :: string
  req_parameters :: dict
  req_contexts :: "in_context list"

record out_context =
  out_name :: string
  lifespanCount :: nat
  out_page :: pyval
  original_query :: string

record response =
  fulfillmentText :: string
  outputContexts :: "out_context list option"

definition has_page :: "in_context \<Rightarrow> bool" where
  "has_page c = (case ctx_parameters c of None \<Rightarrow> False | Some ps \<Rightarrow> map_of ps ''page'' \<noteq> None)"

definition webhook :: "('f::linorder) env \<Rightarrow> request \<Rightarrow> response" where
  "webhook env req =
     (let intent = req_intent req;
          params0 = req_parameters req;
          contexts = req_contexts req;
          page = (case find has_page contexts of
                    None \<Rightarrow> PInt 0
                  | Some c \<Rightarrow>
                      (case ctx_parameters c of
                         None \<Rightarrow> PInt 0
                       | Some ps \<Rightarrow> dict_get ps ''page'' (PInt 0)));
          params = dict_set params0 ''page'' page
      in
      case map_of (INTENT_HANDLERS env) intent of
        None \<Rightarrow>
          \<lparr>fulfillmentText = ''This query type is not supported yet.'', outputContexts = None\<rparr>
      | Some handler \<Rightarrow>
          (case handler params of
             Inl e \<Rightarrow>
               \<lparr>fulfillmentText = ''Sorry, I encountered an error processing your request.'',
                outputContexts = None\<rparr>
           | Inr response_text \<Rightarrow>
               \<lparr>fulfillmentText = response_text,
                outputContexts = Some
                  (if map_of params ''page'' \<noteq> None
                   then [\<lparr>out_name =
                            ''projects/${projectId}/agent/sessions/${sessionId}/contexts/pagination'',
                          lifespanCount = 5,
                          out_page = dict_get params ''page'' (PInt 0),
                          original_query = json_dumps env params\<rparr>]
                   else [])\<rparr>))"

text \<open>
  The endpoint on the value that \<open>request.get_json()\<close> returns, whatever it is. Lines 493
  to 502 read it with \<open>dict.get\<close>, iterate the contexts, test membership, subscript and
  assign an item; each of these raises on a value of the wrong type, inside the \<open>try\<close>
  block and before the handler is looked up.
\<close>












section \<open>A small ontology for the concrete cases\<close>

text \<open>
  Two courses, ``Databases 101'' and ``Intro to AI''. The sample environment converts a
  matched numeral to its exact rational value, which for the numerals used here is the
  value of the Python float, and prints the floats that have one fractional digit.
\<close>

definition sample_metadata :: pyval where
  "sample_metadata = PNode
     [(''CourseCredit'', Inr (PStr ''4'')),
      (''Prerequisites'', Inr (PStr ''NA'')),
      (''Sections'', Inr (PList [PStr ''NA'']))]"

definition sample_sessions :: "pyval list" where
  "sample_sessions =
     [PNode [(''Session'', Inr (PStr ''1'')), (''Module'', Inr (PStr ''Foundations'')),
             (''Topic'', Inr (PStr ''Relational model'')),
             (''ReadingMaterial'', Inr (PStr ''Chapter 2''))],
      PNode [(''Session'', Inr (PStr ''2'')), (''Module'', Inr (PStr ''NA'')),
             (''Topic'', Inr (PStr ''Keys'')),
             (''ReadingMaterial'', Inr (PStr ''NA''))] ]"

definition sample_assessments :: "pyval list" where
  "sample_assessments =
     [PNode [(''AssessmentTool'', Inr (PStr ''Quiz'')), (''Percentage'', Inr (PStr ''20%''))],
      PNode [(''AssessmentTool'', Inr (PStr ''Midterm'')), (''Percentage'', Inr (PStr ''30%''))],
      PNode [(''AssessmentTool'', Inr (PStr ''Project'')), (''Percentage'', Inr (PStr ''abc''))],
      PNode [(''AssessmentTool'', Inr (PStr ''Final Exam'')),
             (''Percentage'', Inr (PStr ''50.5%''))] ]"

definition databases_101 :: pyval where
  "databases_101 = PNode
     [(''name'', Inr (PStr ''databases_101'')),
      (''hasCourseMetadata'', Inr (PList [sample_metadata])),
      (''hasSessionPlan'', Inr (PList sample_sessions)),
      (''hasAssessment'', Inr (PList sample_assessments)),
      (''hasInstructorDetails'', Inr (PList []))]"

definition intro_to_ai :: pyval where
  "intro_to_ai = PNode
     [(''name'', Inr (PStr ''intro_to_ai'')),
      (''hasCourseMetadata'', Inr (PList [])),
      (''hasSessionPlan'', Inr (PList [])),
      (''hasAssessment'', Inr (PList
         [PNode [(''AssessmentTool'', Inr (PStr ''Essay'')), (''Percentage'', Inr (PStr ''30%''))],
          PNode [(''AssessmentTool'', Inr (PStr ''Lab'')), (''Percentage'', Inr (PStr ''30%''))] ])),
      (''hasInstructorDetails'', Inr (PList []))]"

definition digits_value :: "string \<Rightarrow> nat" where
  "digits_value s = foldl (\<lambda>a c. 10 * a + (of_char c - 48)) 0 s"

definition decimal_value :: "string \<Rightarrow> rat" where
  "decimal_value s =
     (let ip = takeWhile is_decimal s; fp = drop (length ip + 1) s
      in of_nat (digits_value ip) + of_nat (digits_value fp) / 10 ^ length fp)"

definition one_digit_str :: "rat \<Rightarrow> string" where
  "one_digit_str q = show_int \<lfloor>q\<rfloor> @ ''.'' @ show_int \<lfloor>(q - of_int \<lfloor>q\<rfloor>) * 10\<rfloor>"

definition sample_env :: "rat env" where
  "sample_env =
     \<lparr>search_iri = (\<lambda>pat. if pat = ''*#databases_101'' then [databases_101]
                          else if pat = ''*#intro_to_ai'' then [intro_to_ai] else []),
      search_Instructors = (\<lambda>name. []),
      str_ext = (\<lambda>v. ''<object>''),
      int_str = (\<lambda>s. Inl ValueError),
      py_float = decimal_value,
      float_str = one_digit_str,
      json_dumps = (\<lambda>d. ''{}''),
      other_handler = (\<lambda>name params. Inl OtherError)\<rparr>"

definition sample_request :: "string \<Rightarrow> dict \<Rightarrow> request" where
  "sample_request intent params =
     \<lparr>req_intent = intent, req_parameters = params, req_contexts = []\<rparr>"


section \<open>Notions used to state the properties\<close>






text \<open>An assessment that \<open>query_assessment_percentage\<close> passes over: its tool is empty or
  differs from the requested one after lower-casing.\<close>

definition other_tool :: "string \<Rightarrow> pyval \<Rightarrow> bool" where
  "other_tool tool_name b =
     (case getattr_py b ''AssessmentTool'' of
        Inr v \<Rightarrow> \<not> truthy v \<or> (case v of PStr t \<Rightarrow> py_lower t \<noteq> py_lower tool_name | _ \<Rightarrow> False)
      | Inl e \<Rightarrow> False)"

section \<open>Basic facts\<close>


text \<open>The body of \<open>get_nested_property\<close> does raise when a relation on the path raises
  something other than \<open>AttributeError\<close>; the \<open>except\<close> clause is not dead code.\<close>

lemma walk_path_can_raise:
  "walk_path (PNode [(''hasCourseMetadata'', Inl TypeError)])
     [''hasCourseMetadata'', ''CourseCredit''] = Inl TypeError"
  by (simp add: hasattr_def)

section \<open>The path resolver\<close>

text \<open>
  C2 (the sentinel is treated as a missing value in every position). The code filters
  the sentinel only when the final value is a scalar: line 60 returns the first element
  of a final list as it is. For the relation \<open>Sections = ["NA"]\<close> the resolver returns
  the string \<open>"NA"\<close>, while for the scalar \<open>Prerequisites = "NA"\<close> it returns \<open>None\<close>;
  the intent \<open>GetSections\<close> then answers with the sentinel itself.
\<close>

theorem get_nested_property_list_sentinel:
  "get_nested_property sample_metadata ''Sections'' = Inr (PStr ''NA'')
   \<and> get_nested_property sample_metadata ''Prerequisites'' = Inr PNone
   \<and> fulfillmentText (webhook sample_env
        (sample_request ''GetSections'' [(''courseName'', PStr ''Databases 101'')])) = ''NA''"
  by code_simp

text \<open>
  C4 (the path resolver never raises). For every value and every dotted path, of any
  number of segments, \<open>get_nested_property\<close> returns: its outcome is \<open>Inr v\<close>, where \<open>v\<close> is
  a value or \<open>None\<close>, and never an exception.
\<close>

theorem get_nested_property_never_raises:
  "(\<exists>v. get_nested_property obj property_path = Inr v)
   \<and> (\<forall>e. get_nested_property obj property_path \<noteq> Inl e)"
  by (simp add: get_nested_property_def split: sum.split)

text \<open>At a course whose first relation raises \<open>TypeError\<close>, the resolver returns \<open>None\<close>.\<close>

theorem get_nested_property_never_raises_witness:
  "get_nested_property (PNode [(''hasCourseMetadata'', Inl TypeError)])
     ''hasCourseMetadata.CourseCredit'' = Inr PNone
   \<and> (\<forall>e. get_nested_property (PNode [(''hasCourseMetadata'', Inl TypeError)])
          ''hasCourseMetadata.CourseCredit'' \<noteq> Inl e)"
  using get_nested_property_never_raises
          [of "PNode [(''hasCourseMetadata'', Inl TypeError)]" "''hasCourseMetadata.CourseCredit''"]
  by (simp add: get_nested_property_def hasattr_def)

section \<open>The dispatcher\<close>









lemma map_of_dict_set: "map_of (dict_set d k v) k' = (if k' = k then Some v else map_of d k')"
  by (induction d) auto

lemma getattr_py_node: "getattr_py obj name = Inr v \<Longrightarrow> \<exists>attrs. obj = PNode attrs"
  by (cases obj) auto

lemma walk_path_step:
  "getattr_py obj prop = Inr v \<Longrightarrow> walk_path obj (prop # props) = walk_path v props"
  by (cases obj) (auto simp: hasattr_def)

lemma walk_path_list_step:
  "getattr_py x prop = Inr v \<Longrightarrow> walk_path (PList (x # xs)) (prop # props) = walk_path v props"
  by (simp add: hasattr_def)

lemma webhook_GetCourseCredits:
  "req_intent req = ''GetCourseCredits'' \<Longrightarrow>
   fulfillmentText (webhook env req) =
     (case handle_standard_query env (dict_set (req_parameters req) ''page''
              (case find has_page (req_contexts req) of None \<Rightarrow> PInt 0
               | Some c \<Rightarrow> (case ctx_parameters c of None \<Rightarrow> PInt 0
                   | Some ps \<Rightarrow> dict_get ps ''page'' (PInt 0))))
              ''hasCourseMetadata.CourseCredit'' ''credit information'' ''course'' of
        Inl e \<Rightarrow> ''Sorry, I encountered an error processing your request.''
      | Inr t \<Rightarrow> t)"
  by (simp add: webhook_def INTENT_HANDLERS_def Let_def split: sum.split)

section \<open>Standard queries\<close>

lemma sample_get_course_db: "get_course sample_env (PStr ''Databases 101'') = Inr databases_101"
  by code_simp

lemma sample_get_course_unknown: "get_course sample_env (PStr ''Unknown Course'') = Inr PNone"
  by code_simp

text \<open>
  C1, as stated, fails: \<open>GetCourseCredits\<close> is dispatched to \<open>handle_standard_query\<close>,
  which returns \<open>str(value)\<close>. For the course ``Databases 101'', whose \<open>CourseCredit\<close> is
  the string \<open>"4"\<close>, the response text is \<open>"4"\<close> and not \<open>"4 credits."\<close>.
\<close>

theorem GetCourseCredits_counterexample:
  "getattr_py sample_metadata ''CourseCredit'' = Inr (PStr ''4'')
   \<and> fulfillmentText (webhook sample_env
        (sample_request ''GetCourseCredits'' [(''courseName'', PStr ''Databases 101'')])) = ''4''
   \<and> fulfillmentText (webhook sample_env
        (sample_request ''GetCourseCredits'' [(''courseName'', PStr ''Databases 101'')]))
       \<noteq> ''4 credits.''"
  by code_simp

text \<open>
  C1, amended. For a request with intent \<open>GetCourseCredits\<close> and course name \<open>name\<close>:
  when the name resolves to a course whose first \<open>hasCourseMetadata\<close> individual has the
  \<open>CourseCredit\<close> value \<open>"4"\<close> (as a scalar or as the first element of a list), the
  response text is \<open>"4"\<close>, the value as a string; when the name does not resolve to a node,
  the response text is the \<open>not_found\<close> template with entity ``course'' and that name.
\<close>

theorem GetCourseCredits_standard_query:
  assumes intent: "req_intent req = ''GetCourseCredits''"
      and name: "map_of (req_parameters req) ''courseName'' = Some (PStr name)"
  shows "(\<forall>course meta ms more.
            get_course env (PStr name) = Inr course
            \<and> getattr_py course ''hasCourseMetadata'' = Inr (PList (meta # ms))
            \<and> (getattr_py meta ''CourseCredit'' = Inr (PStr ''4'')
               \<or> getattr_py meta ''CourseCredit'' = Inr (PList (PStr ''4'' # more)))
            \<longrightarrow> fulfillmentText (webhook env req) = ''4'')
         \<and> (get_course env (PStr name) = Inr PNone
            \<longrightarrow> fulfillmentText (webhook env req) = not_found ''course'' name)"
proof (intro conjI allI impI)
  fix course meta ms more
  assume h: "get_course env (PStr name) = Inr course
            \<and> getattr_py course ''hasCourseMetadata'' = Inr (PList (meta # ms))
            \<and> (getattr_py meta ''CourseCredit'' = Inr (PStr ''4'')
               \<or> getattr_py meta ''CourseCredit'' = Inr (PList (PStr ''4'' # more)))"
  then obtain attrs where "course = PNode attrs"
    using getattr_py_node by blast
  then have t: "truthy course" by simp
  from h have "walk_path course [''hasCourseMetadata'', ''CourseCredit'']
                 = walk_path (PList (meta # ms)) [''CourseCredit'']"
    by (intro walk_path_step) simp
  moreover from h have "walk_path (PList (meta # ms)) [''CourseCredit''] = Inr (PStr ''4'')"
    by (auto simp del: walk_path.simps(2) simp add: walk_path_list_step)
  ultimately
  have "walk_path course [''hasCourseMetadata'', ''CourseCredit''] = Inr (PStr ''4'')"
    by simp
  then have "get_nested_property course ''hasCourseMetadata.CourseCredit'' = Inr (PStr ''4'')"
    by (simp add: get_nested_property_def)
  with h t name show "fulfillmentText (webhook env req) = ''4''"
    by (simp add: webhook_GetCourseCredits [OF intent] handle_standard_query_def
          map_of_dict_set dict_get_def py_str_def)
next
  assume "get_course env (PStr name) = Inr PNone"
  with name show "fulfillmentText (webhook env req) = not_found ''course'' name"
    by (simp add: webhook_GetCourseCredits [OF intent] handle_standard_query_def
          map_of_dict_set dict_get_def py_str_def)
qed

theorem GetCourseCredits_standard_query_witness:
  "fulfillmentText (webhook sample_env
        (sample_request ''GetCourseCredits'' [(''courseName'', PStr ''Databases 101'')])) = ''4''
  \<and> fulfillmentText (webhook sample_env
        (sample_request ''GetCourseCredits'' [(''courseName'', PStr ''Unknown Course'')]))
     = not_found ''course'' ''Unknown Course''"
proof -
  have a: "getattr_py databases_101 ''hasCourseMetadata'' = Inr (PList (sample_metadata # []))"
    by (simp add: databases_101_def)
  have b: "getattr_py sample_metadata ''CourseCredit'' = Inr (PStr ''4'')"
    by (simp add: sample_metadata_def)
  have 1: "fulfillmentText (webhook sample_env
        (sample_request ''GetCourseCredits'' [(''courseName'', PStr ''Databases 101'')])) = ''4''"
    using GetCourseCredits_standard_query
            [of "sample_request ''GetCourseCredits'' [(''courseName'', PStr ''Databases 101'')]"
                "''Databases 101''" sample_env]
          sample_get_course_db a b
    by (simp add: sample_request_def)
  have 2: "fulfillmentText (webhook sample_env
        (sample_request ''GetCourseCredits'' [(''courseName'', PStr ''Unknown Course'')]))
     = not_found ''course'' ''Unknown Course''"
    using GetCourseCredits_standard_query
            [of "sample_request ''GetCourseCredits'' [(''courseName'', PStr ''Unknown Course'')]"
                "''Unknown Course''" sample_env]
          sample_get_course_unknown
    by (simp add: sample_request_def)
  from 1 2 show ?thesis by simp
qed


text \<open>
  C3 (session info). The claim describes \<open>query_session_info\<close>, which scans the session
  plans and strips the sentinel, but \<open>INTENT_HANDLERS\<close> binds \<open>GetSessionInfo\<close> to the
  standard query over the path \<open>hasSessionPlan.<sessionNumber>\<close>, so the session number
  is read as a relation name of the first session plan. For ``Databases 101'' and
  session 1 the webhook answers with the \<open>no_data\<close> text, while \<open>query_session_info\<close> on
  the same parameters gives the summary; its result for session 2 shows the stripping.
\<close>

theorem GetSessionInfo_not_wired:
  "fulfillmentText (webhook sample_env (sample_request ''GetSessionInfo''
       [(''courseName'', PStr ''Databases 101''), (''sessionNumber'', PStr ''1'')]))
     = no_data ''session info'' ''course'' ''Databases 101''
   \<and> query_session_info sample_env
       [(''courseName'', PStr ''Databases 101''), (''sessionNumber'', PStr ''1'')]
     = Inr ''Module: Foundations, Topic: Relational model, Materials: Chapter 2''
   \<and> query_session_info sample_env
       [(''courseName'', PStr ''Databases 101''), (''sessionNumber'', PStr ''2'')]
     = Inr ''Module: Topic: Keys, Materials: ''"
  by code_simp

section \<open>The assessment handlers\<close>

lemma percentage_loop_skip:
  "list_all (other_tool tool_name) pre \<Longrightarrow>
   percentage_loop env params (PStr tool_name) (pre @ rest)
     = percentage_loop env params (PStr tool_name) rest"
proof (induction pre)
  case Nil
  then show ?case by simp
next
  case (Cons b pre)
  then show ?case
    by (auto simp: other_tool_def str_lower_def split: sum.splits pyval.splits)
qed

text \<open>
  C10 (assessment percentage). When the course resolves, the assessments before \<open>a\<close> are
  passed over, the tool of \<open>a\<close> is non-empty and equals the requested tool after
  lower-casing both, and the stored \<open>Percentage\<close> of \<open>a\<close> is a non-empty string \<open>p\<close>, the
  response is \<open>p\<close> followed by one percent sign; a stored \<open>"50.5%"\<close> is answered as
  \<open>"50.5%%"\<close>.
\<close>

theorem assessment_percentage_appends_percent:
  assumes course: "get_course env (dict_get params ''courseName'' (PStr [])) = Inr course"
      and tool: "dict_get params ''assessmentTool'' (PStr []) = PStr tool_name"
      and has: "getattr_py course ''hasAssessment'' = Inr (PList (pre @ a # post))"
      and pre: "list_all (other_tool tool_name) pre"
      and a: "getattr_py a ''AssessmentTool'' = Inr (PStr t)" "t \<noteq> []"
             "py_lower t = py_lower tool_name"
      and p: "getattr_py a ''Percentage'' = Inr (PStr p)" "p \<noteq> []"
  shows "query_assessment_percentage env params = Inr (p @ ''%'')"
proof -
  from has obtain attrs where "course = PNode attrs"
    using getattr_py_node by blast
  then have t: "truthy course" by simp
  have "percentage_loop env params (PStr tool_name) (pre @ a # post)
          = percentage_loop env params (PStr tool_name) (a # post)"
    using pre by (rule percentage_loop_skip)
  also have "\<dots> = Inr (p @ ''%'')"
    using a p by (simp add: str_lower_def py_str_def)
  finally show ?thesis
    using course tool has t
    by (simp add: query_assessment_percentage_def py_iter_def)
qed

theorem assessment_percentage_appends_percent_witness:
  "query_assessment_percentage sample_env
     [(''courseName'', PStr ''Databases 101''), (''assessmentTool'', PStr ''final EXAM'')]
   = Inr ''50.5%%''"
proof -
  have has: "getattr_py databases_101 ''hasAssessment''
      = Inr (PList (take 3 sample_assessments @ (sample_assessments ! 3) # []))"
    by (simp add: databases_101_def sample_assessments_def)
  have pre: "list_all (other_tool ''final EXAM'') (take 3 sample_assessments)"
    by code_simp
  have low: "py_lower ''Final Exam'' = py_lower ''final EXAM''"
    by code_simp
  show ?thesis
    using assessment_percentage_appends_percent
      [of sample_env "[(''courseName'', PStr ''Databases 101''), (''assessmentTool'', PStr ''final EXAM'')]"
          databases_101 "''final EXAM''" "take 3 sample_assessments" "sample_assessments ! 3" "[]"
          "''Final Exam''" "''50.5%''", OF _ _ has pre _ _ low]
      sample_get_course_db
    by (simp add: dict_get_def sample_assessments_def)
qed







lemma sample_tie_first_wins:
  "query_highest_assessment_tool sample_env [(''courseName'', PStr ''Intro to AI'')]
     = Inr ''Highest weighted assessment tool: Essay (30.0%).''"
  by code_simp




section \<open>Pagination\<close>











section \<open>The entity resolvers\<close>

lemma cache_ok_lookup:
  "cache_ok f c \<Longrightarrow> map_of c k = Some v \<Longrightarrow> fst (f k) = Inr v"
  by (auto simp: cache_ok_def list_all_iff dest: map_of_SomeD)

lemma cache_ok_take: "cache_ok f c \<Longrightarrow> cache_ok f (take n c)"
  by (auto simp: cache_ok_def list_all_iff dest: in_set_takeD)

lemma cache_ok_filter: "cache_ok f c \<Longrightarrow> cache_ok f (filter P c)"
  by (auto simp: cache_ok_def list_all_iff)

lemma cache_ok_Cons: "cache_ok f ((k, v) # c) = (fst (f k) = Inr v \<and> cache_ok f c)"
  by (simp add: cache_ok_def)

lemma lru_cache_result:
  assumes "cache_ok f c"
  shows "fst (fst (lru_cache n f c k)) = (if hashable k then fst (f k) else Inl TypeError)"
proof (cases "map_of c k")
  case None
  then show ?thesis
    by (cases "f k") (auto simp: lru_cache_def split: sum.splits)
next
  case (Some v)
  with assms have "fst (f k) = Inr v" by (rule cache_ok_lookup)
  with Some show ?thesis
    by (simp add: lru_cache_def)
qed

lemma lru_cache_queries:
  "snd (fst (lru_cache n f c k)) = [] \<or> snd (fst (lru_cache n f c k)) = snd (f k)"
  by (cases "f k") (auto simp: lru_cache_def split: sum.splits option.splits)

lemma lru_cache_ok:
  assumes "cache_ok f c"
  shows "cache_ok f (snd (lru_cache n f c k))"
proof (cases "map_of c k")
  case None
  show ?thesis
  proof (cases "f k")
    case (Pair r qs)
    with None assms show ?thesis
      by (cases r) (auto simp: lru_cache_def cache_ok_Cons intro: cache_ok_take)
  qed
next
  case (Some v)
  with assms have "fst (f k) = Inr v" by (rule cache_ok_lookup)
  with Some assms show ?thesis
    by (simp add: lru_cache_def cache_ok_Cons cache_ok_filter)
qed

lemma get_course_calls_ok:
  "cache_ok (get_course_body env) c \<Longrightarrow> get_course_calls env c ks = map (get_course env) ks"
proof (induction ks arbitrary: c)
  case Nil
  then show ?case by simp
next
  case (Cons k ks)
  obtain r qs c' where call: "get_course_cached env c k = ((r, qs), c')"
    by (metis prod.exhaust)
  from Cons.prems have "fst (fst (get_course_cached env c k)) = get_course env k"
    by (simp add: get_course_cached_def get_course_def lru_cache_result)
  with call have r: "r = get_course env k" by simp
  from Cons.prems have "cache_ok (get_course_body env) (snd (get_course_cached env c k))"
    unfolding get_course_cached_def by (rule lru_cache_ok)
  with call have "cache_ok (get_course_body env) c'" by simp
  then have "get_course_calls env c' ks = map (get_course env) ks" by (rule Cons.IH)
  with call r show ?case by simp
qed

lemma invalid_string:
  assumes "s = [] \<or> length s > 50 \<or> (\<exists>c \<in> set s. \<not> (is_word c \<or> is_space c \<or> c = CHR ''-''))"
  shows "validate_input (PStr s) = Inr False"
  using assms
  by (auto simp: validate_input_def py_len_def MAX_INPUT_LENGTH_def match_valid_def
        in_valid_class_def list_all_iff)

text \<open>
  C7, as stated, fails: the class \<open>[\w\s-]\<close> of \<open>validate_input\<close> contains the
  underscore, which is neither a letter, a digit, whitespace nor the hyphen. The input
  \<open>"intro_to_ai"\<close> is accepted; \<open>get_course\<close> queries the ontology and returns a node, and
  \<open>get_instructor\<close> queries it as well.
\<close>

theorem underscore_input_counterexample:
  "\<not> is_alnum (CHR ''_'') \<and> \<not> is_space (CHR ''_'') \<and> CHR ''_'' \<noteq> CHR ''-''
   \<and> CHR ''_'' \<in> set ''intro_to_ai''
   \<and> get_course_body sample_env (PStr ''intro_to_ai'')
       = (Inr intro_to_ai, [SearchIri ''*#intro_to_ai''])
   \<and> get_instructor_body sample_env (PStr ''intro_to_ai'')
       = (Inr PNone, [SearchInstructors ''intro_to_ai''])
   \<and> intro_to_ai \<noteq> PNone"
  by code_simp

text \<open>
  C7, amended. For every input string that is empty, or longer than 50 characters, or
  contains a character outside the word characters (letters, digits and the
  underscore), whitespace and the hyphen, \<open>get_course\<close> and \<open>get_instructor\<close> return
  \<open>None\<close> and issue no ontology query: so do their bodies, and so does the decorated
  function on every cache whose entries are results of the body.
\<close>

theorem invalid_input_not_found_without_lookup:
  assumes "s = [] \<or> length s > 50
           \<or> (\<exists>c \<in> set s. \<not> (is_word c \<or> is_space c \<or> c = CHR ''-''))"
  shows "get_course_body env (PStr s) = (Inr PNone, [])
       \<and> get_instructor_body env (PStr s) = (Inr PNone, [])
       \<and> (cache_ok (get_course_body env) c
            \<longrightarrow> fst (get_course_cached env c (PStr s)) = (Inr PNone, []))
       \<and> (cache_ok (get_instructor_body env) c'
            \<longrightarrow> fst (get_instructor_cached env c' (PStr s)) = (Inr PNone, []))"
proof -
  from assms have v: "validate_input (PStr s) = Inr False" by (rule invalid_string)
  then have a: "get_course_body env (PStr s) = (Inr PNone, [])"
    by (simp add: get_course_body_def)
  from v have b: "get_instructor_body env (PStr s) = (Inr PNone, [])"
    by (simp add: get_instructor_body_def)
  have cached: "fst (lru_cache n f k (PStr s)) = (Inr PNone, [])"
    if ok: "cache_ok f k" and body: "f (PStr s) = (Inr PNone, [])" for n f k
  proof -
    from ok have "fst (fst (lru_cache n f k (PStr s))) = Inr PNone"
      by (simp add: lru_cache_result body)
    moreover have "snd (fst (lru_cache n f k (PStr s))) = []"
      using lru_cache_queries [of n f k "PStr s"] by (simp add: body)
    ultimately show ?thesis by (simp add: prod_eq_iff)
  qed
  show ?thesis
    using a b cached [of "get_course_body env" c 100, OF _ a]
      cached [of "get_instructor_body env" c' 50, OF _ b]
    by (simp add: get_course_cached_def get_instructor_cached_def)
qed

theorem invalid_input_not_found_without_lookup_witness:
  "get_course_body sample_env (PStr ''intro.to.ai'') = (Inr PNone, [])
   \<and> get_instructor_body sample_env (PStr ''intro.to.ai'') = (Inr PNone, [])
   \<and> fst (get_course_cached sample_env [] (PStr ''intro.to.ai'')) = (Inr PNone, [])
   \<and> fst (get_instructor_cached sample_env [] (PStr ''intro.to.ai'')) = (Inr PNone, [])"
proof -
  have h: "''intro.to.ai'' = [] \<or> length ''intro.to.ai'' > 50
           \<or> (\<exists>c \<in> set ''intro.to.ai''. \<not> (is_word c \<or> is_space c \<or> c = CHR ''-''))"
    by (simp add: is_word_def is_alnum_def is_space_def)
  show ?thesis
    using invalid_input_not_found_without_lookup [OF h, of sample_env "[]" "[]"]
    by (simp add: cache_ok_def)
qed

text \<open>
  C8, as stated, fails: \<open>"intro.to.ai"\<close> and \<open>"Intro to AI"\<close> normalize to the same
  identifier \<open>intro_to_ai\<close>, but the first does not pass \<open>validate_input\<close> and resolves to
  \<open>None\<close>, while the second resolves to the node.
\<close>

theorem invalid_name_same_identifier_counterexample:
  "sanitize_id ''intro.to.ai'' = sanitize_id ''Intro to AI''
   \<and> get_course sample_env (PStr ''Intro to AI'') = Inr intro_to_ai
   \<and> get_course sample_env (PStr ''intro.to.ai'') = Inr PNone
   \<and> get_course_calls sample_env [] [PStr ''Intro to AI'', PStr ''intro.to.ai'']
       = [Inr intro_to_ai, Inr PNone]
   \<and> intro_to_ai \<noteq> PNone"
  by code_simp

text \<open>
  C8, amended. \<open>get_course\<close> is deterministic and idempotent: in every sequence of calls
  that starts with an empty cache, each call returns what the undecorated function
  returns for its argument, so a repeated call returns the result of the first and the
  cache never answers with the node of another argument. For raw strings that pass
  input validation, resolution factors through \<open>sanitize_id\<close>: the result is the first
  node of the identifier's IRI pattern, so two valid raw strings with the same identifier
  resolve to the same node; \<open>"Intro to AI"\<close> and \<open>"intro-to-ai"\<close> both normalize to
  \<open>intro_to_ai\<close>.
\<close>

theorem get_course_idempotent_on_valid_names:
  "get_course_calls env [] ks = map (get_course env) ks
   \<and> (validate_input (PStr a) = Inr True \<longrightarrow>
        get_course env (PStr a) = Inr (first_or_none (search_iri env (''*#'' @ sanitize_id a))))
   \<and> (validate_input (PStr a) = Inr True \<and> validate_input (PStr b) = Inr True
        \<and> sanitize_id a = sanitize_id b \<longrightarrow>
        get_course env (PStr a) = get_course env (PStr b))
   \<and> sanitize_id ''Intro to AI'' = ''intro_to_ai''
   \<and> sanitize_id ''intro-to-ai'' = ''intro_to_ai''"
proof -
  have calls: "get_course_calls env [] ks = map (get_course env) ks"
    by (rule get_course_calls_ok) (simp add: cache_ok_def)
  have valid: "get_course env (PStr x) = Inr (first_or_none (search_iri env (''*#'' @ sanitize_id x)))"
    if "validate_input (PStr x) = Inr True" for x
    using that by (simp add: get_course_def get_course_body_def Let_def)
  have ex1: "sanitize_id ''Intro to AI'' = ''intro_to_ai''" by code_simp
  have ex2: "sanitize_id ''intro-to-ai'' = ''intro_to_ai''" by code_simp
  show ?thesis
    using calls valid ex1 ex2 by simp
qed

theorem get_course_idempotent_on_valid_names_witness:
  "get_course_calls sample_env []
      [PStr ''Intro to AI'', PStr ''intro-to-ai'', PStr ''Intro to AI'', PStr ''Databases 101'']
     = [Inr intro_to_ai, Inr intro_to_ai, Inr intro_to_ai, Inr databases_101]
   \<and> validate_input (PStr ''Intro to AI'') = Inr True
   \<and> validate_input (PStr ''intro-to-ai'') = Inr True
   \<and> get_course sample_env (PStr ''Intro to AI'') = get_course sample_env (PStr ''intro-to-ai'')"
proof -
  have v1: "validate_input (PStr ''Intro to AI'') = Inr True" by code_simp
  have v2: "validate_input (PStr ''intro-to-ai'') = Inr True" by code_simp
  have g1: "get_course sample_env (PStr ''Intro to AI'') = Inr intro_to_ai" by code_simp
  show ?thesis
    using get_course_idempotent_on_valid_names
            [of sample_env
                "[PStr ''Intro to AI'', PStr ''intro-to-ai'', PStr ''Intro to AI'',
                  PStr ''Databases 101'']"
                "''Intro to AI''" "''intro-to-ai''"]
          v1 v2 g1 sample_get_course_db
    by simp
qed

end
